theory Spec2Isabelle
  imports Main
begin

section \<open>The agent portrayal callback of the visualization tutorial\<close>

text \<open>
  The tutorial notebook \<^verbatim>\<open>docs/tutorials/visualization_tutorial.ipynb\<close> defines one
  function with a branch, the portrayal callback handed to the grid visualizer:
  \<^verbatim>\<open>
  def agent_portrayal(agent):
      size = 10
      color = "tab:red"
      if agent.wealth > 0:
          size = 50
          color = "tab:blue"
      return {"size": size, "color": color}
  \<close>
  (An earlier cell defines a constant \<^verbatim>\<open>agent_portrayal\<close> that this cell replaces; the
  later definition is the one in force for the rest of the notebook and the one
  modelled here.)
\<close>

subsection \<open>Values, objects and errors\<close>

text \<open>
  The Python values that occur in the function: integers (unbounded, hence \<open>int\<close>)
  and strings. An agent is a Python object; what the function can observe of it is
  the outcome of attribute lookup, so an agent is the map from the attribute
  names that lookup resolves to their current values. The portrayal is a Python
  \<^verbatim>\<open>dict\<close> with string keys; two dicts are equal when they have the same keys with
  equal values, whatever the insertion order, which is equality of maps.
\<close>

datatype pyval = PyInt int | PyStr string

type_synonym agent = "string \<rightharpoonup> pyval"

type_synonym portrayal = "string \<rightharpoonup> pyval"

text \<open>
  The two exceptions the body can raise: \<^verbatim>\<open>agent.wealth\<close> raises
  \<^verbatim>\<open>AttributeError\<close> when lookup finds no such attribute, and \<^verbatim>\<open>> 0\<close> raises
  \<^verbatim>\<open>TypeError\<close> when the left operand does not order against an \<^verbatim>\<open>int\<close>.
\<close>

datatype py_error = AttributeError string | TypeError

text \<open>Attribute access \<^verbatim>\<open>obj.name\<close>.\<close>

definition getattr :: "agent \<Rightarrow> string \<Rightarrow> py_error + pyval" where
  "getattr obj name = (case obj name of None \<Rightarrow> Inl (AttributeError name) | Some v \<Rightarrow> Inr v)"

text \<open>The comparison \<^verbatim>\<open>v > n\<close> against an integer literal \<^verbatim>\<open>n\<close>.\<close>

fun py_gt_int :: "pyval \<Rightarrow> int \<Rightarrow> py_error + bool" where
  "py_gt_int (PyInt i) n = Inr (n < i)"
| "py_gt_int (PyStr s) n = Inl TypeError"

subsection \<open>The callback\<close>

text \<open>
  The function receives a reference to the agent, so the model returns, next to the
  value or exception of the call, the agent as the call leaves it. The local
  variables \<^verbatim>\<open>size\<close> and \<^verbatim>\<open>color\<close> are bound first and rebound in the taken branch; an
  exception raised while the condition is evaluated leaves the function at once.
\<close>

definition agent_portrayal :: "agent \<Rightarrow> (py_error + portrayal) \<times> agent" where
  "agent_portrayal agent =
     (let size = PyInt 10;
          color = PyStr ''tab:red''
      in case getattr agent ''wealth'' of
           Inl e \<Rightarrow> (Inl e, agent)
         | Inr w \<Rightarrow>
             (case py_gt_int w 0 of
                Inl e \<Rightarrow> (Inl e, agent)
              | Inr b \<Rightarrow>
                  (let (size, color) =
                         (if b then (PyInt 50, PyStr ''tab:blue'') else (size, color))
                   in (Inr [''size'' \<mapsto> size, ''color'' \<mapsto> color], agent))))"

section \<open>Properties\<close>

lemma agent_portrayal_int:
  "agent ''wealth'' = Some (PyInt w) \<Longrightarrow>
   agent_portrayal agent =
     (Inr (if 0 < w then [''size'' \<mapsto> PyInt 50, ''color'' \<mapsto> PyStr ''tab:blue'']
           else [''size'' \<mapsto> PyInt 10, ''color'' \<mapsto> PyStr ''tab:red'']), agent)"
  by (simp add: agent_portrayal_def getattr_def)

lemma agent_portrayal_str:
  "agent ''wealth'' = Some (PyStr s) \<Longrightarrow> agent_portrayal agent = (Inl TypeError, agent)"
  by (simp add: agent_portrayal_def getattr_def)

lemma agent_portrayal_missing:
  "agent ''wealth'' = None \<Longrightarrow>
   agent_portrayal agent = (Inl (AttributeError ''wealth''), agent)"
  by (simp add: agent_portrayal_def getattr_def)

lemma portrayal_key_order:
  "[''size'' \<mapsto> s, ''color'' \<mapsto> c] = [''color'' \<mapsto> c, ''size'' \<mapsto> (s::pyval)]"
  by (rule fun_upd_twist) simp

lemma agent_portrayal_snd: "snd (agent_portrayal agent) = agent"
proof (cases "agent ''wealth''")
  case None
  then show ?thesis by (simp add: agent_portrayal_missing)
next
  case (Some v)
  then show ?thesis
    by (cases v) (simp_all add: agent_portrayal_int agent_portrayal_str)
qed

lemma agent_portrayal_reads_wealth_only:
  assumes "a1 ''wealth'' = a2 ''wealth''"
  shows "fst (agent_portrayal a1) = fst (agent_portrayal a2)"
proof (cases "a1 ''wealth''")
  case None
  with assms show ?thesis by (simp add: agent_portrayal_missing)
next
  case (Some v)
  with assms have "a2 ''wealth'' = Some v" by simp
  with Some show ?thesis
    by (cases v) (simp_all add: agent_portrayal_int agent_portrayal_str)
qed

lemma agent_portrayal_returns_iff:
  "(\<exists>r. fst (agent_portrayal agent) = Inr r) \<longleftrightarrow> (\<exists>w. agent ''wealth'' = Some (PyInt w))"
proof (cases "agent ''wealth''")
  case None
  then show ?thesis by (simp add: agent_portrayal_missing)
next
  case (Some v)
  then show ?thesis
    by (cases v) (simp_all add: agent_portrayal_int agent_portrayal_str)
qed

lemma agent_portrayal_InrD:
  assumes "fst (agent_portrayal agent) = Inr r"
  shows "r = [''size'' \<mapsto> PyInt 50, ''color'' \<mapsto> PyStr ''tab:blue''] \<or>
         r = [''size'' \<mapsto> PyInt 10, ''color'' \<mapsto> PyStr ''tab:red'']"
proof -
  from assms obtain w where "agent ''wealth'' = Some (PyInt w)"
    using agent_portrayal_returns_iff by blast
  with assms show ?thesis
    by (cases "0 < w") (simp_all add: agent_portrayal_int)
qed

text \<open>
  C1. Every agent whose \<^verbatim>\<open>wealth\<close> is greater than 0 is portrayed by exactly the
  dict \<^verbatim>\<open>{color: "tab:blue", size: 50}\<close>.
\<close>

theorem agent_portrayal_positive:
  assumes "agent ''wealth'' = Some (PyInt w)" and "0 < w"
  shows "fst (agent_portrayal agent) =
           Inr [''color'' \<mapsto> PyStr ''tab:blue'', ''size'' \<mapsto> PyInt 50]"
  using assms by (simp add: agent_portrayal_int portrayal_key_order)

theorem agent_portrayal_positive_witness:
  "fst (agent_portrayal [''wealth'' \<mapsto> PyInt 37]) =
     Inr [''color'' \<mapsto> PyStr ''tab:blue'', ''size'' \<mapsto> PyInt 50]"
  using agent_portrayal_positive [of "[''wealth'' \<mapsto> PyInt 37]" 37] by simp

text \<open>
  C2. Every agent whose \<^verbatim>\<open>wealth\<close> equals 0 is portrayed by exactly the dict
  \<^verbatim>\<open>{color: "tab:red", size: 10}\<close>.
\<close>

theorem agent_portrayal_zero:
  assumes "agent ''wealth'' = Some (PyInt 0)"
  shows "fst (agent_portrayal agent) =
           Inr [''color'' \<mapsto> PyStr ''tab:red'', ''size'' \<mapsto> PyInt 10]"
  using assms by (simp add: agent_portrayal_int portrayal_key_order)

theorem agent_portrayal_zero_witness:
  "fst (agent_portrayal [''wealth'' \<mapsto> PyInt 0]) =
     Inr [''color'' \<mapsto> PyStr ''tab:red'', ''size'' \<mapsto> PyInt 10]"
  using agent_portrayal_zero [of "[''wealth'' \<mapsto> PyInt 0]"] by simp

text \<open>
  C3. For an agent without a \<^verbatim>\<open>wealth\<close> attribute the call raises: its outcome is
  the \<^verbatim>\<open>AttributeError\<close> of the failed lookup, handed to the caller, and no
  portrayal dict at all.
\<close>

theorem agent_portrayal_missing_attribute:
  assumes "agent ''wealth'' = None"
  shows "fst (agent_portrayal agent) = Inl (AttributeError ''wealth'') \<and>
         (\<nexists>r. fst (agent_portrayal agent) = Inr r)"
  using assms by (simp add: agent_portrayal_missing)

theorem agent_portrayal_missing_attribute_witness:
  "fst (agent_portrayal [''unique_id'' \<mapsto> PyInt 7]) = Inl (AttributeError ''wealth'') \<and>
   (\<nexists>r. fst (agent_portrayal [''unique_id'' \<mapsto> PyInt 7]) = Inr r)"
  using agent_portrayal_missing_attribute [of "[''unique_id'' \<mapsto> PyInt 7]"] by simp

text \<open>
  C4. The callback is deterministic: two agents with the same \<^verbatim>\<open>wealth\<close> (both
  lacking it included) get equal outcomes, whatever their other attributes; and a
  second call on the agent as the first call left it gives the outcome of the first.
\<close>

theorem agent_portrayal_deterministic:
  assumes "a1 ''wealth'' = a2 ''wealth''"
  shows "fst (agent_portrayal a1) = fst (agent_portrayal a2) \<and>
         fst (agent_portrayal (snd (agent_portrayal a1))) = fst (agent_portrayal a1)"
proof
  from assms show "fst (agent_portrayal a1) = fst (agent_portrayal a2)"
    by (rule agent_portrayal_reads_wealth_only)
next
  show "fst (agent_portrayal (snd (agent_portrayal a1))) = fst (agent_portrayal a1)"
    by (simp only: agent_portrayal_snd)
qed

theorem agent_portrayal_deterministic_witness:
  "fst (agent_portrayal [''wealth'' \<mapsto> PyInt 3, ''unique_id'' \<mapsto> PyInt 1]) =
     fst (agent_portrayal [''unique_id'' \<mapsto> PyInt 2, ''wealth'' \<mapsto> PyInt 3]) \<and>
   fst (agent_portrayal
          (snd (agent_portrayal [''wealth'' \<mapsto> PyInt 3, ''unique_id'' \<mapsto> PyInt 1]))) =
     fst (agent_portrayal [''wealth'' \<mapsto> PyInt 3, ''unique_id'' \<mapsto> PyInt 1])"
proof -
  have "[''wealth'' \<mapsto> PyInt 3, ''unique_id'' \<mapsto> PyInt 1] ''wealth'' =
        [''unique_id'' \<mapsto> PyInt 2, ''wealth'' \<mapsto> PyInt 3] ''wealth''"
    by simp
  then show ?thesis
    by (rule agent_portrayal_deterministic
               [of "[''wealth'' \<mapsto> PyInt 3, ''unique_id'' \<mapsto> PyInt 1]"
                   "[''unique_id'' \<mapsto> PyInt 2, ''wealth'' \<mapsto> PyInt 3]"])
qed

text \<open>
  C5. A call leaves the agent as it found it: after the call, whether it returned
  or raised, every attribute of the agent, \<^verbatim>\<open>wealth\<close> among them, has the value it
  had before.
\<close>

theorem agent_portrayal_leaves_agent_unchanged:
  "snd (agent_portrayal agent) = agent"
  by (rule agent_portrayal_snd)

text \<open>
  C6. For an agent that has a \<^verbatim>\<open>wealth\<close> attribute, any dict the call returns has
  a value under \<^verbatim>\<open>color\<close> and a value under \<^verbatim>\<open>size\<close>; and when that attribute
  is a number the call does return a dict. (A \<^verbatim>\<open>wealth\<close> that is not a number makes
  the comparison raise \<^verbatim>\<open>TypeError\<close>, and then no dict is returned at all.)
\<close>

theorem agent_portrayal_color_and_size_present:
  assumes "agent ''wealth'' = Some v"
  shows "(\<forall>r. fst (agent_portrayal agent) = Inr r \<longrightarrow> ''color'' \<in> dom r \<and> ''size'' \<in> dom r) \<and>
         ((\<exists>w. v = PyInt w) \<longrightarrow> (\<exists>r. fst (agent_portrayal agent) = Inr r))"
proof
  show "\<forall>r. fst (agent_portrayal agent) = Inr r \<longrightarrow> ''color'' \<in> dom r \<and> ''size'' \<in> dom r"
  proof (intro allI impI)
    fix r
    assume "fst (agent_portrayal agent) = Inr r"
    from agent_portrayal_InrD [OF this] show "''color'' \<in> dom r \<and> ''size'' \<in> dom r"
      by auto
  qed
next
  from assms show "(\<exists>w. v = PyInt w) \<longrightarrow> (\<exists>r. fst (agent_portrayal agent) = Inr r)"
    by (auto simp: agent_portrayal_returns_iff)
qed

theorem agent_portrayal_color_and_size_present_witness:
  "\<exists>r. fst (agent_portrayal [''wealth'' \<mapsto> PyInt 37]) = Inr r \<and>
       ''color'' \<in> dom r \<and> ''size'' \<in> dom r"
proof -
  have "[''wealth'' \<mapsto> PyInt 37] ''wealth'' = Some (PyInt 37)"
    by simp
  with agent_portrayal_color_and_size_present [of "[''wealth'' \<mapsto> PyInt 37]" "PyInt 37"]
  show ?thesis
    by blast
qed

text \<open>
  C7. For an agent that has a \<^verbatim>\<open>wealth\<close> attribute, the \<^verbatim>\<open>size\<close> of any dict the
  call returns is a positive integer; and when that attribute is a number the call
  does return a dict.
\<close>

theorem agent_portrayal_size_positive:
  assumes "agent ''wealth'' = Some v"
  shows "(\<forall>r. fst (agent_portrayal agent) = Inr r \<longrightarrow> (\<exists>n. r ''size'' = Some (PyInt n) \<and> 0 < n)) \<and>
         ((\<exists>w. v = PyInt w) \<longrightarrow> (\<exists>r. fst (agent_portrayal agent) = Inr r))"
proof
  show "\<forall>r. fst (agent_portrayal agent) = Inr r \<longrightarrow> (\<exists>n. r ''size'' = Some (PyInt n) \<and> 0 < n)"
  proof (intro allI impI)
    fix r
    assume "fst (agent_portrayal agent) = Inr r"
    from agent_portrayal_InrD [OF this] show "\<exists>n. r ''size'' = Some (PyInt n) \<and> 0 < n"
      by auto
  qed
next
  from assms show "(\<exists>w. v = PyInt w) \<longrightarrow> (\<exists>r. fst (agent_portrayal agent) = Inr r)"
    by (auto simp: agent_portrayal_returns_iff)
qed

theorem agent_portrayal_size_positive_witness:
  "\<exists>r n. fst (agent_portrayal [''wealth'' \<mapsto> PyInt 0]) = Inr r \<and>
         r ''size'' = Some (PyInt n) \<and> 0 < n"
proof -
  have "[''wealth'' \<mapsto> PyInt 0] ''wealth'' = Some (PyInt 0)"
    by simp
  with agent_portrayal_size_positive [of "[''wealth'' \<mapsto> PyInt 0]" "PyInt 0"]
  show ?thesis
    by blast
qed

text \<open>
  C8. Every agent whose \<^verbatim>\<open>wealth\<close> is below 0 is portrayed by exactly the dict
  \<^verbatim>\<open>{color: "tab:red", size: 10}\<close>, as the only test is \<^verbatim>\<open>wealth > 0\<close>.
\<close>

theorem agent_portrayal_negative:
  assumes "agent ''wealth'' = Some (PyInt w)" and "w < 0"
  shows "fst (agent_portrayal agent) =
           Inr [''color'' \<mapsto> PyStr ''tab:red'', ''size'' \<mapsto> PyInt 10]"
  using assms by (simp add: agent_portrayal_int portrayal_key_order)

theorem agent_portrayal_negative_witness:
  "fst (agent_portrayal [''wealth'' \<mapsto> PyInt (- 5)]) =
     Inr [''color'' \<mapsto> PyStr ''tab:red'', ''size'' \<mapsto> PyInt 10]"
  using agent_portrayal_negative [of "[''wealth'' \<mapsto> PyInt (- 5)]" "- 5"] by simp

text \<open>
  C9. The portrayal depends on \<^verbatim>\<open>wealth\<close> only through the truth of
  \<^verbatim>\<open>wealth > 0\<close>: two agents whose \<^verbatim>\<open>wealth\<close> is positive for both, or not positive
  for both, get equal dicts, however the two amounts differ.
\<close>

theorem agent_portrayal_depends_on_sign_only:
  assumes "a1 ''wealth'' = Some (PyInt w1)" and "a2 ''wealth'' = Some (PyInt w2)"
    and "(0 < w1) = (0 < w2)"
  shows "fst (agent_portrayal a1) = fst (agent_portrayal a2) \<and>
         (\<exists>r. fst (agent_portrayal a1) = Inr r)"
  using assms by (simp add: agent_portrayal_int)

theorem agent_portrayal_depends_on_sign_only_witness:
  "fst (agent_portrayal [''wealth'' \<mapsto> PyInt 1]) =
     fst (agent_portrayal [''wealth'' \<mapsto> PyInt 1000]) \<and>
   fst (agent_portrayal [''wealth'' \<mapsto> PyInt 0]) =
     fst (agent_portrayal [''wealth'' \<mapsto> PyInt (- 4)])"
proof -
  have pos: "[''wealth'' \<mapsto> PyInt 1] ''wealth'' = Some (PyInt 1)"
    "[''wealth'' \<mapsto> PyInt 1000] ''wealth'' = Some (PyInt 1000)"
    "(0 < (1::int)) = (0 < (1000::int))"
    by simp_all
  have nonpos: "[''wealth'' \<mapsto> PyInt 0] ''wealth'' = Some (PyInt 0)"
    "[''wealth'' \<mapsto> PyInt (- 4)] ''wealth'' = Some (PyInt (- 4))"
    "(0 < (0::int)) = (0 < (- 4::int))"
    by simp_all
  from agent_portrayal_depends_on_sign_only
         [of "[''wealth'' \<mapsto> PyInt 1]" 1 "[''wealth'' \<mapsto> PyInt 1000]" 1000, OF pos]
       agent_portrayal_depends_on_sign_only
         [of "[''wealth'' \<mapsto> PyInt 0]" 0 "[''wealth'' \<mapsto> PyInt (- 4)]" "- 4", OF nonpos]
  show ?thesis
    by blast
qed

text \<open>
  C10. For an agent that has a \<^verbatim>\<open>wealth\<close> attribute, the keys of any dict the call
  returns are \<^verbatim>\<open>size\<close> and \<^verbatim>\<open>color\<close> and no others; and when that attribute is a
  number the call does return a dict.
\<close>

theorem agent_portrayal_keys:
  assumes "agent ''wealth'' = Some v"
  shows "(\<forall>r. fst (agent_portrayal agent) = Inr r \<longrightarrow> dom r = {''size'', ''color''}) \<and>
         ((\<exists>w. v = PyInt w) \<longrightarrow> (\<exists>r. fst (agent_portrayal agent) = Inr r))"
proof
  show "\<forall>r. fst (agent_portrayal agent) = Inr r \<longrightarrow> dom r = {''size'', ''color''}"
  proof (intro allI impI)
    fix r
    assume "fst (agent_portrayal agent) = Inr r"
    from agent_portrayal_InrD [OF this] show "dom r = {''size'', ''color''}"
      by (elim disjE) (simp_all add: insert_commute)
  qed
next
  from assms show "(\<exists>w. v = PyInt w) \<longrightarrow> (\<exists>r. fst (agent_portrayal agent) = Inr r)"
    by (auto simp: agent_portrayal_returns_iff)
qed

theorem agent_portrayal_keys_witness:
  "\<exists>r. fst (agent_portrayal [''wealth'' \<mapsto> PyInt 2, ''unique_id'' \<mapsto> PyInt 9]) = Inr r \<and>
       dom r = {''size'', ''color''}"
proof -
  have "[''wealth'' \<mapsto> PyInt 2, ''unique_id'' \<mapsto> PyInt 9] ''wealth'' = Some (PyInt 2)"
    by simp
  from agent_portrayal_keys
         [of "[''wealth'' \<mapsto> PyInt 2, ''unique_id'' \<mapsto> PyInt 9]" "PyInt 2", OF this]
  have keys: "\<forall>r. fst (agent_portrayal [''wealth'' \<mapsto> PyInt 2, ''unique_id'' \<mapsto> PyInt 9]) = Inr r
                 \<longrightarrow> dom r = {''size'', ''color''}"
    and ret: "\<exists>r. fst (agent_portrayal [''wealth'' \<mapsto> PyInt 2, ''unique_id'' \<mapsto> PyInt 9]) = Inr r"
    by simp_all
  from ret obtain r
    where r: "fst (agent_portrayal [''wealth'' \<mapsto> PyInt 2, ''unique_id'' \<mapsto> PyInt 9]) = Inr r" ..
  with keys have "dom r = {''size'', ''color''}"
    by (simp only:)
  with r show ?thesis
    by (intro exI conjI)
qed

end
